theory Spec2Isabelle
  imports Complex_Main "HOL-Library.Multiset"
begin

section \<open>Calendar dates\<close>

text \<open>
  Python's \<^verbatim>\<open>datetime.date\<close>: a year, a month and a day. The constructor of the
  library accepts only the dates that \<open>valid_date\<close> describes. Dates compare as the
  triples (year, month, day); the difference of two dates counts the days between their
  proleptic Gregorian ordinals (\<^verbatim>\<open>date.toordinal\<close>).
\<close>

datatype date = Date (year: int) (month: int) (day: int)

definition is_leap :: "int \<Rightarrow> bool" where
  "is_leap y = (y mod 4 = 0 \<and> (y mod 100 \<noteq> 0 \<or> y mod 400 = 0))"

definition days_in_month :: "int \<Rightarrow> int \<Rightarrow> int" where
  "days_in_month y m =
     (if m = 2 then (if is_leap y then 29 else 28)
      else if m = 4 \<or> m = 6 \<or> m = 9 \<or> m = 11 then 30 else 31)"

definition days_before_year :: "int \<Rightarrow> int" where
  "days_before_year y = (y - 1) * 365 + (y - 1) div 4 - (y - 1) div 100 + (y - 1) div 400"

definition days_before_month :: "int \<Rightarrow> int \<Rightarrow> int" where
  "days_before_month y m =
     (if m = 1 then 0 else if m = 2 then 31 else if m = 3 then 59 else if m = 4 then 90
      else if m = 5 then 120 else if m = 6 then 151 else if m = 7 then 181
      else if m = 8 then 212 else if m = 9 then 243 else if m = 10 then 273
      else if m = 11 then 304 else 334)
     + (if 2 < m \<and> is_leap y then 1 else 0)"

definition valid_date :: "date \<Rightarrow> bool" where
  "valid_date d =
     (1 \<le> year d \<and> year d \<le> 9999 \<and> 1 \<le> month d \<and> month d \<le> 12 \<and>
      1 \<le> day d \<and> day d \<le> days_in_month (year d) (month d))"

definition toordinal :: "date \<Rightarrow> int" where
  "toordinal d = days_before_year (year d) + days_before_month (year d) (month d) + day d"

text \<open>\<^verbatim>\<open>(a - b).days\<close>\<close>

definition days_between :: "date \<Rightarrow> date \<Rightarrow> int" where
  "days_between a b = toordinal a - toordinal b"

text \<open>\<^verbatim>\<open>a < b\<close> and \<^verbatim>\<open>a <= b\<close> on dates.\<close>

definition date_less :: "date \<Rightarrow> date \<Rightarrow> bool" where
  "date_less a b =
     (year a < year b \<or> (year a = year b \<and>
        (month a < month b \<or> (month a = month b \<and> day a < day b))))"

definition date_le :: "date \<Rightarrow> date \<Rightarrow> bool" where
  "date_le a b = (date_less a b \<or> a = b)"


section \<open>Strings\<close>

text \<open>
  \<^verbatim>\<open>str.lower()\<close> on the ASCII letters, and the decimal text that an f-string
  prints for an integer.
\<close>

definition lower_char :: "char \<Rightarrow> char" where
  "lower_char c =
     (case map_of (zip ''ABCDEFGHIJKLMNOPQRSTUVWXYZ'' ''abcdefghijklmnopqrstuvwxyz'') c of
        Some l \<Rightarrow> l
      | None \<Rightarrow> c)"

definition lower :: "string \<Rightarrow> string" where
  "lower s = map lower_char s"

definition digit_char :: "nat \<Rightarrow> char" where
  "digit_char n = ''0123456789'' ! (n mod 10)"

fun str_nat :: "nat \<Rightarrow> string" where
  "str_nat n = (if n < 10 then [digit_char n] else str_nat (n div 10) @ [digit_char n])"

declare str_nat.simps [simp del]

definition str_int :: "int \<Rightarrow> string" where
  "str_int i = (if i < 0 then CHR ''-'' # str_nat (nat (- i)) else str_nat (nat i))"


section \<open>The bucket scheme\<close>

text \<open>
  \<^verbatim>\<open>calculate_aging_bucket\<close> of \<^verbatim>\<open>helper.py\<close>. The two \<^verbatim>\<open>for\<close> loops
  that return at the first matching index are the functions \<open>month_loop\<close> and
  \<open>period_loop\<close> over the indices of the range.
\<close>

definition plural :: "int \<Rightarrow> string" where
  "plural i = (if i > 1 then ''s'' else '''')"

fun month_loop :: "int list \<Rightarrow> int \<Rightarrow> string \<Rightarrow> string" where
  "month_loop [] months_diff period_type = ''Older''"
| "month_loop (i # rest) months_diff period_type =
     (if months_diff = i then str_int i @ '' '' @ period_type @ plural i
      else month_loop rest months_diff period_type)"

fun period_loop :: "int list \<Rightarrow> int \<Rightarrow> int \<Rightarrow> string \<Rightarrow> string" where
  "period_loop [] days days_per_period period_type = ''Older''"
| "period_loop (i # rest) days days_per_period period_type =
     (if days \<le> i * days_per_period then
        (if i = 1 then ''< 1 '' @ period_type
         else str_int (i - 1) @ '' '' @ period_type @ plural (i - 1))
      else period_loop rest days days_per_period period_type)"

definition calculate_aging_bucket ::
  "date \<Rightarrow> date \<Rightarrow> int \<Rightarrow> int \<Rightarrow> string \<Rightarrow> bool \<Rightarrow> string" where
  "calculate_aging_bucket report_date due_date periods period_of period_type show_current =
     (let days = days_between report_date due_date in
      if days < 0 then ''Current''
      else if lower period_type = ''month'' then
        (let months_diff0 = (year report_date - year due_date) * 12
                              + (month report_date - month due_date);
             months_diff = (if day report_date < day due_date then months_diff0 - 1
                            else months_diff0)
         in if months_diff \<le> 0 then ''< 1 '' @ period_type
            else if months_diff = 1 then ''1 '' @ period_type
            else month_loop [2..periods - 1] months_diff period_type)
      else
        (let days_per_period =
               (if lower period_type = ''day'' then period_of
                else if lower period_type = ''week'' then period_of * 7
                else period_of * 30)
         in period_loop [1..periods] days days_per_period period_type))"

text \<open>\<^verbatim>\<open>generate_bucket_names\<close>: \<open>Current\<close>, one name per index of the range, \<open>Older\<close>.\<close>

definition bucket_name :: "string \<Rightarrow> int \<Rightarrow> string" where
  "bucket_name period_type i =
     (if i = 1 then ''< 1 '' @ period_type
      else str_int (i - 1) @ '' '' @ period_type @ plural (i - 1))"

definition generate_bucket_names :: "int \<Rightarrow> string \<Rightarrow> bool \<Rightarrow> string list" where
  "generate_bucket_names periods period_type show_current =
     [''Current''] @ map (bucket_name period_type) [1..periods] @ [''Older'']"


section \<open>Amounts\<close>

text \<open>
  Amounts are Python floats. A finite double is a rational number, so an amount is a
  \<open>rat\<close>; \<open>to_float\<close> is the conversion \<^verbatim>\<open>float(x)\<close> of a number (round to
  nearest, ties to even, on a 53-bit significand, exponent at least \<open>-1074\<close>), and
  \<open>float_add\<close> is the sum of two floats, the exact sum rounded the same way. Overflow to
  infinity (above about \<open>1.8e308\<close>) is outside the model. Comparison and negation of floats
  are exact.
\<close>

definition round_half_even :: "rat \<Rightarrow> int" where
  "round_half_even x =
     (let f = \<lfloor>x\<rfloor>; d = x - of_int f
      in if d < 1 / 2 then f else if 1 / 2 < d then f + 1
         else if even f then f else f + 1)"

fun scale :: "nat \<Rightarrow> rat \<Rightarrow> int \<Rightarrow> rat \<times> int" where
  "scale 0 m e = (m, e)"
| "scale (Suc n) m e =
     (if 2 ^ 53 \<le> m then scale n (m / 2) (e + 1)
      else if m < 2 ^ 52 \<and> - 1074 < e then scale n (m * 2) (e - 1)
      else (m, e))"

definition pow2 :: "int \<Rightarrow> rat" where
  "pow2 e = (if 0 \<le> e then 2 ^ nat e else 1 / 2 ^ nat (- e))"

definition to_float :: "rat \<Rightarrow> rat" where
  "to_float x =
     (if x = 0 then 0
      else (case scale 2200 \<bar>x\<bar> 0 of
              (m, e) \<Rightarrow> sgn x * of_int (round_half_even m) * pow2 e))"

definition float_add :: "rat \<Rightarrow> rat \<Rightarrow> rat" where
  "float_add a b = to_float (a + b)"


section \<open>Python values and items\<close>

text \<open>
  The values that the fields of an item hold. \<open>VDate\<close> is a calendar date; a
  \<^verbatim>\<open>datetime\<close> is read through its \<^verbatim>\<open>.date()\<close> and is not kept apart here.
  An item is an object with attributes (what \<^verbatim>\<open>hasattr\<close> sees) and with entries
  (what \<^verbatim>\<open>item.get\<close> reads). The service builds every item as a plain
  \<^verbatim>\<open>dict\<close>: its attributes are the methods of \<^verbatim>\<open>dict\<close>, its entries the
  keys.
\<close>

datatype pyval = VNone | VBool bool | VNum rat | VStr string | VDate date | VList "pyval list"

fun truthy :: "pyval \<Rightarrow> bool" where
  "truthy VNone = False"
| "truthy (VBool b) = b"
| "truthy (VNum r) = (r \<noteq> 0)"
| "truthy (VStr s) = (s \<noteq> [])"
| "truthy (VDate d) = True"
| "truthy (VList xs) = (xs \<noteq> [])"

text \<open>
  \<open>Unmodelled\<close> marks the inputs on which this development does not say what Python
  does (the text of a float, a date or a list inside an f-string, the float of a string).
\<close>

datatype py_error = TypeError | ValueError | KeyError | UnboundLocalError | Unmodelled

record item_obj =
  attributes :: "string list"
  entries :: "string \<rightharpoonup> pyval"

definition dict_attributes :: "string list" where
  "dict_attributes = [''clear'', ''copy'', ''fromkeys'', ''get'', ''items'', ''keys'',
     ''pop'', ''popitem'', ''setdefault'', ''update'', ''values'']"

definition py_dict :: "(string \<times> pyval) list \<Rightarrow> item_obj" where
  "py_dict kvs = \<lparr>attributes = dict_attributes, entries = map_of (rev kvs)\<rparr>"

definition hasattr :: "item_obj \<Rightarrow> string \<Rightarrow> bool" where
  "hasattr item name = (name \<in> set (attributes item))"

definition get :: "item_obj \<Rightarrow> string \<Rightarrow> pyval \<Rightarrow> pyval" where
  "get item k dflt = (case entries item k of Some v \<Rightarrow> v | None \<Rightarrow> dflt)"

fun py_float :: "pyval \<Rightarrow> py_error + rat" where
  "py_float (VNum r) = Inr (to_float r)"
| "py_float (VBool b) = Inr (if b then 1 else 0)"
| "py_float (VStr s) = Inl Unmodelled"
| "py_float VNone = Inl TypeError"
| "py_float (VDate d) = Inl TypeError"
| "py_float (VList xs) = Inl TypeError"


section \<open>The ledger\<close>

text \<open>
  A ledger entry is the dictionary \<^verbatim>\<open>report[key]\<close>: the three naming fields, one
  amount per bucket name and, under \<^verbatim>\<open>invoice_details\<close>, one list of item details
  per bucket name. The amounts sit in the same dictionary as the naming fields; a bucket
  that the classifier returns is \<open>Current\<close>, \<open>Older\<close> or starts with \<open><\<close> or a digit,
  so it never meets a naming field, and the amounts are kept as a map of their own.
\<close>

record item_detail =
  detail_number :: pyval
  detail_id :: pyval
  detail_amount :: rat
  detail_is_negative :: bool
  detail_status :: pyval
  detail_type :: string

record entry =
  business_unit :: string
  company :: string
  contact :: pyval
  bucket_amounts :: "string \<rightharpoonup> rat"
  invoice_details :: "string \<rightharpoonup> item_detail list"

type_synonym report = "string \<rightharpoonup> entry"

text \<open>
  A call either returns the report or raises; the report is mutated in place, so a call
  that raises leaves behind what it had written before.
\<close>

datatype outcome = Returned report | Raised py_error report


section \<open>Adding an item to the ledger\<close>

text \<open>
  \<^verbatim>\<open>process_financial_item\<close> of \<^verbatim>\<open>helper.py\<close>, in the order of the source:
  the amount, the early return, the contact, the display identifiers, the reference date,
  the bucket, the key, the entry, the bucket amount, the item detail.
\<close>

text \<open>The display identifiers \<^verbatim>\<open>(item_number, item_id, status)\<close> by item type.\<close>

definition item_identifiers :: "item_obj \<Rightarrow> string \<Rightarrow> py_error + (pyval \<times> pyval \<times> pyval)" where
  "item_identifiers item item_type =
     (if item_type = ''invoice'' then
        Inr (get item ''invoice_number'' VNone, get item ''invoice_id'' VNone,
             get item ''status'' VNone)
      else if item_type = ''credit_note'' then
        Inr (get item ''credit_note_number'' VNone, get item ''credit_note_id'' VNone,
             get item ''status'' VNone)
      else if item_type = ''bank_transaction'' then
        (case get item ''bank_transaction_id'' (VStr ''Unknown'') of
           VStr s \<Rightarrow> Inr (VStr (take 8 s), get item ''bank_transaction_id'' VNone,
                          get item ''status'' VNone)
         | VList xs \<Rightarrow> Inl Unmodelled
         | _ \<Rightarrow> Inl TypeError)
      else Inr (VStr ''Unknown'', VNone, VNone))"

text \<open>
  The reference date: the value of the date field, replaced by \<^verbatim>\<open>date\<close> for an item
  with an \<^verbatim>\<open>allocations\<close> attribute and allocations, or else, for a credit note, by
  \<^verbatim>\<open>due_date\<close> or \<^verbatim>\<open>DueDate\<close> when the item has that attribute; a value that
  is not truthy gives way to the fallback date, or to the report date.
\<close>

definition select_item_date ::
  "item_obj \<Rightarrow> string \<Rightarrow> string \<Rightarrow> date option \<Rightarrow> date \<Rightarrow> pyval" where
  "select_item_date item date_field item_type date_fallback report_date =
     (let item_date0 = get item date_field VNone;
          item_date =
            (if hasattr item ''allocations'' \<and> truthy (get item ''allocations'' (VList [])) then
               (if truthy (get item ''allocations'' (VList [])) \<and> truthy (get item ''date'' VNone)
                then get item ''date'' VNone else item_date0)
             else if item_type = ''credit_note'' then
               (if hasattr item ''due_date'' \<and> truthy (get item ''due_date'' VNone)
                then get item ''due_date'' VNone
                else if hasattr item ''DueDate'' \<and> truthy (get item ''DueDate'' VNone)
                then get item ''DueDate'' VNone
                else item_date0)
             else item_date0)
      in if \<not> truthy item_date
         then VDate (case date_fallback of Some d \<Rightarrow> d | None \<Rightarrow> report_date)
         else item_date)"

text \<open>
  The bucket of the reference date. Subtracting anything but a date from the report date
  is a \<^verbatim>\<open>TypeError\<close>.
\<close>

definition item_bucket ::
  "date \<Rightarrow> pyval \<Rightarrow> int \<Rightarrow> int \<Rightarrow> string \<Rightarrow> bool \<Rightarrow> py_error + string" where
  "item_bucket report_date item_date periods period_of period_type show_current =
     (case item_date of
        VDate d \<Rightarrow> Inr (calculate_aging_bucket report_date d periods period_of period_type
                           show_current)
      | _ \<Rightarrow> Inl TypeError)"

definition str_truthy :: "string option \<Rightarrow> bool" where
  "str_truthy s = (case s of None \<Rightarrow> False | Some t \<Rightarrow> t \<noteq> [])"

definition str_or :: "string option \<Rightarrow> string \<Rightarrow> string" where
  "str_or s dflt = (case s of None \<Rightarrow> dflt | Some t \<Rightarrow> if t = [] then dflt else t)"

text \<open>
  The key of the ledger entry: \<^verbatim>\<open>f"{business_type}|{connection_name}|{contact_name}"\<close>
  when both names are given, the contact itself otherwise (the ledger is keyed by
  strings here).
\<close>

text \<open>\<^verbatim>\<open>str(x)\<close>, as an f-string prints a value.\<close>

fun py_str :: "pyval \<Rightarrow> py_error + string" where
  "py_str (VStr s) = Inr s"
| "py_str VNone = Inr ''None''"
| "py_str (VBool b) = Inr (if b then ''True'' else ''False'')"
| "py_str (VNum r) = Inl Unmodelled"
| "py_str (VDate d) = Inl Unmodelled"
| "py_str (VList xs) = Inl Unmodelled"

definition item_key :: "string option \<Rightarrow> string option \<Rightarrow> pyval \<Rightarrow> py_error + string" where
  "item_key connection_name business_type contact_name =
     (if str_truthy connection_name \<and> str_truthy business_type then
        (case py_str contact_name of
           Inl e \<Rightarrow> Inl e
         | Inr c \<Rightarrow> Inr (the business_type @ ''|'' @ the connection_name @ ''|'' @ c))
      else
        (case contact_name of
           VStr c \<Rightarrow> Inr c
         | VList xs \<Rightarrow> Inl TypeError
         | _ \<Rightarrow> Inl Unmodelled))"

definition new_entry :: "string option \<Rightarrow> string option \<Rightarrow> pyval \<Rightarrow> string list \<Rightarrow> entry" where
  "new_entry business_type connection_name contact_name bucket_names =
     \<lparr>business_unit = str_or business_type ''Unknown'',
      company = str_or connection_name ''Unknown'',
      contact = contact_name,
      bucket_amounts = map_of (map (\<lambda>name. (name, 0)) bucket_names),
      invoice_details = map_of (map (\<lambda>name. (name, [])) bucket_names)\<rparr>"

definition process_financial_item ::
  "item_obj \<Rightarrow> date \<Rightarrow> int \<Rightarrow> int \<Rightarrow> string \<Rightarrow> string list \<Rightarrow> report \<Rightarrow> string \<Rightarrow> string
     \<Rightarrow> bool \<Rightarrow> date option \<Rightarrow> string option \<Rightarrow> string option \<Rightarrow> string \<Rightarrow> bool \<Rightarrow> outcome" where
  "process_financial_item item report_date periods period_of period_type bucket_names report
       amount_field date_field is_negative date_fallback connection_name business_type
       item_type show_current =
     (case py_float (get item amount_field (VNum 0)) of
        Inl e \<Rightarrow> Raised e report
      | Inr amount \<Rightarrow>
     if amount \<le> 0 \<and> item_type \<noteq> ''bank_transaction'' then Returned report
     else
     (let contact_name = get item ''contact'' (VStr ''Unknown Contact'') in
      case item_identifiers item item_type of
        Inl e \<Rightarrow> Raised e report
      | Inr (item_number, item_id, status) \<Rightarrow>
     (let item_date = select_item_date item date_field item_type date_fallback report_date in
      case item_bucket report_date item_date periods period_of period_type show_current of
        Inl e \<Rightarrow> Raised e report
      | Inr bucket \<Rightarrow>
     (case item_key connection_name business_type contact_name of
        Inl e \<Rightarrow> Raised e report
      | Inr key \<Rightarrow>
     (let ent = (case report key of
                   None \<Rightarrow> new_entry business_type connection_name contact_name bucket_names
                 | Some ent0 \<Rightarrow> ent0);
          report1 = report(key \<mapsto> ent)
      in case bucket_amounts ent bucket of
           None \<Rightarrow> Raised KeyError report1
         | Some old \<Rightarrow>
     (let ent2 = ent\<lparr>bucket_amounts := (bucket_amounts ent)(bucket \<mapsto>
                        float_add old (if is_negative then - amount else amount))\<rparr>;
          report2 = report(key \<mapsto> ent2)
      in if truthy item_number then
           (case invoice_details ent2 bucket of
              None \<Rightarrow> Raised KeyError report2
            | Some details \<Rightarrow>
                Returned (report(key \<mapsto> ent2\<lparr>invoice_details := (invoice_details ent2)(bucket \<mapsto>
                   details @ [\<lparr>detail_number = item_number, detail_id = item_id,
                                detail_amount = (if \<not> is_negative then amount else - amount),
                                detail_is_negative = is_negative, detail_status = status,
                                detail_type = item_type\<rparr>])\<rparr>)))
         else Returned report2))))))"


section \<open>Invoices as the accounting platform delivers them\<close>

text \<open>
  The attributes of an invoice object that \<^verbatim>\<open>_get_unpaid_invoices\<close> of
  \<^verbatim>\<open>service.py\<close> reads. A date attribute holds a \<^verbatim>\<open>date\<close> or nothing. Where the
  code tells a \<^verbatim>\<open>datetime\<close> (an object with a \<^verbatim>\<open>.date()\<close> method) from a plain
  \<^verbatim>\<open>date\<close>, the attribute is a \<open>dtval\<close>. The legacy timestamp strings
  (\<^verbatim>\<open>/Date(...)/\<close>) are read through the local time zone and are outside the model.
\<close>

datatype dtval = ADate date | ADateTime date

fun dt_date :: "dtval \<Rightarrow> date" where
  "dt_date (ADate d) = d"
| "dt_date (ADateTime d) = d"

record payment =
  pay_date :: "dtval option"
  pay_amount :: rat

record invoice =
  inv_type :: string
  inv_status :: string
  inv_date :: "date option"
  inv_due_date :: "date option"
  inv_fully_paid_on_date :: "date option"
  inv_updated_date_utc :: "dtval option"
  inv_amount_due :: rat
  inv_amount_paid :: rat
  inv_total :: rat
  inv_payments :: "payment list"
  inv_credit_notes :: "dtval option list"
  inv_number :: pyval
  inv_id :: pyval
  inv_contact :: "pyval option"
  inv_allocations :: pyval

text \<open>
  An element of \<^verbatim>\<open>all_invoices\<close>: the invoice (with \<^verbatim>\<open>amount_due\<close> overridden
  when the reconciler rebuilt it) and the value of
  \<^verbatim>\<open>getattr(invoice, 'is_negative', False)\<close>.
\<close>

record listed =
  listed_invoice :: invoice
  listed_is_negative :: bool

text \<open>\<^verbatim>\<open>x and x <= report_date\<close>, \<^verbatim>\<open>x and x > report_date\<close>,
  \<^verbatim>\<open>x and x >= report_date\<close>, \<^verbatim>\<open>x and x == report_date\<close> for an optional date.\<close>

definition on_or_before :: "date option \<Rightarrow> date \<Rightarrow> bool" where
  "on_or_before x report_date = (case x of None \<Rightarrow> False | Some d \<Rightarrow> date_le d report_date)"

definition after :: "date option \<Rightarrow> date \<Rightarrow> bool" where
  "after x report_date = (case x of None \<Rightarrow> False | Some d \<Rightarrow> date_less report_date d)"

definition on_or_after :: "date option \<Rightarrow> date \<Rightarrow> bool" where
  "on_or_after x report_date = (case x of None \<Rightarrow> False | Some d \<Rightarrow> date_le report_date d)"

definition on_day :: "date option \<Rightarrow> date \<Rightarrow> bool" where
  "on_day x report_date = (case x of None \<Rightarrow> False | Some d \<Rightarrow> d = report_date)"


section \<open>The point-in-time reconciler\<close>

subsection \<open>The payment date of a Set-A invoice\<close>

text \<open>
  The latest payment date, second priority of the resolution. The loop keeps a payment
  whose date has a \<^verbatim>\<open>.date()\<close> method and skips every other one, a plain
  \<^verbatim>\<open>date\<close> included.
\<close>

fun latest_payment_date :: "payment list \<Rightarrow> date option \<Rightarrow> date option" where
  "latest_payment_date [] latest = latest"
| "latest_payment_date (p # ps) latest =
     (case pay_date p of
        Some (ADateTime d) \<Rightarrow>
          latest_payment_date ps
            (case latest of
               None \<Rightarrow> Some d
             | Some l \<Rightarrow> if date_less l d then Some d else Some l)
      | _ \<Rightarrow> latest_payment_date ps latest)"

definition resolve_payment_date :: "date \<Rightarrow> invoice \<Rightarrow> date option" where
  "resolve_payment_date report_date invoice =
     (let first = inv_fully_paid_on_date invoice;
          second =
            (if first = None \<and> inv_payments invoice \<noteq> [] then
               (case latest_payment_date (inv_payments invoice) None of
                  Some d \<Rightarrow> Some d
                | None \<Rightarrow> first)
             else first);
          third =
            (if inv_amount_paid invoice > 0 \<and> second = None then
               (case inv_updated_date_utc invoice of
                  Some (ADateTime d) \<Rightarrow> Some d
                | _ \<Rightarrow> second)
             else second)
      in if inv_amount_paid invoice > 0 \<and> inv_amount_due invoice = 0 \<and> third = None
            \<and> on_or_before (inv_date invoice) report_date
         then inv_date invoice
         else third)"

subsection \<open>The decision table\<close>

record decision =
  should_include :: bool
  negative :: bool
  report_amount :: rat

definition credit_note_after_report :: "date \<Rightarrow> dtval option list \<Rightarrow> bool" where
  "credit_note_after_report report_date notes =
     (find (\<lambda>n. case n of None \<Rightarrow> False | Some dt \<Rightarrow> date_less report_date (dt_date dt)) notes
        \<noteq> None)"

fun payments_after :: "date \<Rightarrow> payment list \<Rightarrow> rat \<Rightarrow> rat" where
  "payments_after report_date [] acc = acc"
| "payments_after report_date (p # ps) acc =
     (case pay_date p of
        None \<Rightarrow> payments_after report_date ps acc
      | Some dt \<Rightarrow>
          if date_less report_date (dt_date dt)
          then payments_after report_date ps (float_add acc (to_float (pay_amount p)))
          else payments_after report_date ps acc)"

definition decide :: "date \<Rightarrow> invoice \<Rightarrow> decision" where
  "decide report_date invoice =
     (let issue_date = inv_date invoice;
          due_date = inv_due_date invoice;
          amount_due = inv_amount_due invoice;
          amount_paid = inv_amount_paid invoice;
          payment_date = resolve_payment_date report_date invoice;
          adjusted_total_amount = to_float (inv_total invoice);
          adjusted_amount_due = to_float amount_due;
          excluded = \<lparr>should_include = False, negative = False, report_amount = 0\<rparr>
      in
      \<comment> \<open>Scenario 1, and 1a inside it\<close>
      if on_or_before issue_date report_date \<and> on_or_before payment_date report_date
         \<and> after due_date report_date then
        (if on_or_before issue_date report_date \<and> on_or_before payment_date report_date
            \<and> amount_due > 0
         then \<lparr>should_include = True, negative = False, report_amount = adjusted_amount_due\<rparr>
         else excluded)
      \<comment> \<open>Scenario 2\<close>
      else if on_or_before issue_date report_date \<and> on_or_before payment_date report_date
         \<and> on_or_before due_date report_date \<and> amount_due = 0 then excluded
      \<comment> \<open>Scenario 3\<close>
      else if on_or_before issue_date report_date
         \<and> (payment_date = None \<or> after payment_date report_date)
         \<and> after due_date report_date then
        \<lparr>should_include = True, negative = False,
         report_amount =
           (if credit_note_after_report report_date (inv_credit_notes invoice)
            then adjusted_total_amount
            else if adjusted_amount_due > 0 then adjusted_amount_due
            else adjusted_total_amount)\<rparr>
      \<comment> \<open>Scenario 4\<close>
      else if after issue_date report_date \<and> on_or_before payment_date report_date
         \<and> on_or_after due_date report_date then
        \<lparr>should_include = True, negative = True, report_amount = adjusted_total_amount\<rparr>
      \<comment> \<open>Scenario 5\<close>
      else if on_or_before issue_date report_date \<and> on_or_before payment_date report_date
         \<and> amount_due = 0 then excluded
      \<comment> \<open>Scenario 6\<close>
      else if on_or_before issue_date report_date \<and> after payment_date report_date then
        (let payments_after_report =
               (if inv_payments invoice \<noteq> [] then
                  float_add (payments_after report_date (inv_payments invoice) 0)
                    (to_float amount_due)
                else 0)
         in \<lparr>should_include = True, negative = False,
             report_amount =
               (if payments_after_report > 0 then payments_after_report
                else if amount_due = 0 then adjusted_total_amount
                else adjusted_amount_due)\<rparr>)
      \<comment> \<open>Scenario 7\<close>
      else if on_or_before issue_date report_date \<and> on_or_before due_date report_date
         \<and> amount_paid > 0 \<and> amount_due > 0 then
        \<lparr>should_include = True, negative = False, report_amount = adjusted_amount_due\<rparr>
      \<comment> \<open>Scenario 8\<close>
      else if on_or_before issue_date report_date
         \<and> (payment_date = None \<or> after payment_date report_date) then
        \<lparr>should_include = True, negative = False,
         report_amount =
           (if adjusted_amount_due > 0 then adjusted_amount_due else adjusted_total_amount)\<rparr>
      \<comment> \<open>Scenario 9\<close>
      else if on_or_before issue_date report_date \<and> on_day payment_date report_date then excluded
      \<comment> \<open>Scenario 10\<close>
      else if on_or_before issue_date report_date \<and> on_or_before payment_date report_date
      then excluded
      else excluded)"

subsection \<open>Set A: the loop over the unpaid invoices\<close>

definition unpaid_step :: "bool \<Rightarrow> date \<Rightarrow> invoice \<Rightarrow> listed option" where
  "unpaid_step is_future_date report_date invoice =
     (if is_future_date \<and> inv_type invoice = ''ACCREC'' \<and> inv_amount_due invoice > 0
         \<and> inv_status invoice = ''AUTHORISED''
         \<and> on_or_before (inv_date invoice) report_date then
        Some \<lparr>listed_invoice = invoice, listed_is_negative = False\<rparr>
      else if \<not> is_future_date \<and> inv_type invoice = ''ACCREC''
         \<and> on_or_before (inv_date invoice) report_date then
        (let d = decide report_date invoice
         in if should_include d
            then Some \<lparr>listed_invoice = invoice\<lparr>inv_amount_due := report_amount d\<rparr>,
                       listed_is_negative = negative d\<rparr>
            else None)
      else None)"

subsection \<open>Set B: the loop over the paid invoices\<close>

definition paid_step :: "date \<Rightarrow> invoice \<Rightarrow> bool" where
  "paid_step report_date invoice =
     (inv_type invoice = ''ACCREC'' \<and> inv_status invoice = ''PAID''
      \<and> after (inv_due_date invoice) report_date
      \<and> inv_date invoice \<noteq> None \<and> inv_due_date invoice \<noteq> None
      \<and> year (the (inv_date invoice)) = year (the (inv_due_date invoice))
      \<and> month (the (inv_date invoice)) = month (the (inv_due_date invoice))
      \<and> date_le (the (inv_date invoice)) report_date)"

subsection \<open>Set C: the loop over the invoices issued after the report date\<close>

fun paid_up_to :: "date \<Rightarrow> payment list \<Rightarrow> rat \<times> bool \<Rightarrow> rat \<times> bool" where
  "paid_up_to report_date [] acc = acc"
| "paid_up_to report_date (p # ps) (total_paid, has_payments) =
     (case pay_date p of
        None \<Rightarrow> paid_up_to report_date ps (total_paid, has_payments)
      | Some dt \<Rightarrow>
          if date_le (dt_date dt) report_date
          then paid_up_to report_date ps (float_add total_paid (to_float (pay_amount p)), True)
          else paid_up_to report_date ps (total_paid, has_payments))"

text \<open>
  One iteration. The local \<^verbatim>\<open>has_payments_before_report_date\<close> is assigned only
  for an invoice with payments and is read by \<^verbatim>\<open>condition2\<close>; it lives across the
  iterations, so the loop carries it (\<open>None\<close> while unassigned).
\<close>

definition early_paid_step ::
  "date \<Rightarrow> bool option \<Rightarrow> invoice \<Rightarrow> py_error + (listed option \<times> bool option)" where
  "early_paid_step report_date has_before invoice =
     (if inv_type invoice \<noteq> ''ACCREC'' then Inr (None, has_before)
      else if inv_date invoice = None \<or> on_or_before (inv_date invoice) report_date
      then Inr (None, has_before)
      else
       (let payments = inv_payments invoice;
            (total_paid, has_now) =
               (if payments \<noteq> [] then paid_up_to report_date payments (0, False)
                else (0, False));
            has_before' = (if payments \<noteq> [] then Some has_now else has_before);
            marked = (payments \<noteq> [] \<and> has_now);
            payment_date = (if marked then Some report_date else inv_fully_paid_on_date invoice);
            issue_date = inv_date invoice;
            due_date = inv_due_date invoice;
            condition1 = (after issue_date report_date \<and> on_or_before payment_date report_date
                          \<and> on_or_after due_date report_date);
            reads_flag = (inv_status invoice = ''AUTHORISED'' \<and> inv_amount_paid invoice > 0
                          \<and> after issue_date report_date \<and> on_or_after due_date report_date)
        in if reads_flag \<and> has_before' = None then Inl UnboundLocalError
           else
            (let condition2 = (reads_flag \<and> has_before' = Some True)
             in if condition1 \<or> condition2 then
                  (if after payment_date report_date then Inr (None, has_before')
                   else Inr (Some \<lparr>listed_invoice =
                                      invoice\<lparr>inv_amount_due :=
                                        (if marked then total_paid else inv_total invoice)\<rparr>,
                                    listed_is_negative = True\<rparr>, has_before'))
                else Inr (None, has_before'))))"

fun early_paid_loop ::
  "date \<Rightarrow> bool option \<Rightarrow> invoice list \<Rightarrow> py_error + listed list" where
  "early_paid_loop report_date has_before [] = Inr []"
| "early_paid_loop report_date has_before (invoice # rest) =
     (case early_paid_step report_date has_before invoice of
        Inl e \<Rightarrow> Inl e
      | Inr (found, has_before') \<Rightarrow>
          (case early_paid_loop report_date has_before' rest of
             Inl e \<Rightarrow> Inl e
           | Inr others \<Rightarrow> Inr ((case found of None \<Rightarrow> [] | Some l \<Rightarrow> [l]) @ others)))"

subsection \<open>The three sets together\<close>

text \<open>
  \<^verbatim>\<open>_get_unpaid_invoices\<close> on the three candidate lists that the accounting platform
  (or the cache) returned. The paid and the early-paid candidates are fetched for a past
  or present report date only.
\<close>

definition get_unpaid_invoices ::
  "bool \<Rightarrow> date \<Rightarrow> invoice list \<Rightarrow> invoice list \<Rightarrow> invoice list \<Rightarrow> py_error + listed list" where
  "get_unpaid_invoices is_future_date report_date unpaid_invoices paid_invoices
       early_paid_invoices =
     (let from_unpaid = List.map_filter (unpaid_step is_future_date report_date) unpaid_invoices;
          from_paid = map (\<lambda>i. \<lparr>listed_invoice = i, listed_is_negative = False\<rparr>)
                        (filter (paid_step report_date)
                           (if is_future_date then [] else paid_invoices))
      in case early_paid_loop report_date None
                (if is_future_date then [] else early_paid_invoices) of
           Inl e \<Rightarrow> Inl e
         | Inr from_early \<Rightarrow> Inr (from_unpaid @ from_paid @ from_early))"

text \<open>The dictionary that \<^verbatim>\<open>get_aged_receivables_data\<close> builds of a listed invoice.\<close>

definition opt_date :: "date option \<Rightarrow> pyval" where
  "opt_date d = (case d of None \<Rightarrow> VNone | Some x \<Rightarrow> VDate x)"

definition invoice_item :: "listed \<Rightarrow> item_obj" where
  "invoice_item l =
     (let invoice = listed_invoice l in
      py_dict
        [(''invoice_number'', inv_number invoice),
         (''invoice_id'', inv_id invoice),
         (''amount_due'', VNum (to_float (inv_amount_due invoice))),
         (''due_date'', opt_date (inv_due_date invoice)),
         (''date'', opt_date (inv_date invoice)),
         (''status'', VStr (inv_status invoice)),
         (''contact'', (case inv_contact invoice of
                          None \<Rightarrow> VStr ''Unknown Contact''
                        | Some name \<Rightarrow> name)),
         (''allocations'', inv_allocations invoice),
         (''is_negative'', VBool (listed_is_negative l))])"


section \<open>A run of calls on one ledger\<close>

text \<open>
  The arguments of \<^verbatim>\<open>process_financial_item\<close> that are the same for every item of
  a report, and those that change from call to call. \<open>add_items\<close> makes the calls in
  order and stops at the first one that raises, as the loops of the service do.
\<close>

record config =
  cfg_report_date :: date
  cfg_periods :: int
  cfg_period_of :: int
  cfg_period_type :: string
  cfg_bucket_names :: "string list"
  cfg_show_current :: bool

record call =
  c_item :: item_obj
  c_amount_field :: string
  c_date_field :: string
  c_is_negative :: bool
  c_date_fallback :: "date option"
  c_connection_name :: "string option"
  c_business_type :: "string option"
  c_item_type :: string

definition add_item :: "config \<Rightarrow> report \<Rightarrow> call \<Rightarrow> outcome" where
  "add_item cfg report c =
     process_financial_item (c_item c) (cfg_report_date cfg) (cfg_periods cfg)
       (cfg_period_of cfg) (cfg_period_type cfg) (cfg_bucket_names cfg) report
       (c_amount_field c) (c_date_field c) (c_is_negative c) (c_date_fallback c)
       (c_connection_name c) (c_business_type c) (c_item_type c) (cfg_show_current cfg)"

fun add_items :: "config \<Rightarrow> call list \<Rightarrow> report \<Rightarrow> outcome" where
  "add_items cfg [] report = Returned report"
| "add_items cfg (c # cs) report =
     (case add_item cfg report c of
        Returned report' \<Rightarrow> add_items cfg cs report'
      | Raised e report' \<Rightarrow> Raised e report')"


section \<open>What a run adds to the ledger\<close>














section \<open>The report over the connections\<close>

text \<open>
  \<^verbatim>\<open>generate_aged_receivables_report\<close> of \<^verbatim>\<open>service.py\<close>, up to the ledger.
  Outside the repository, and parameters here: the library's \<^verbatim>\<open>strptime\<close> for the
  format \<^verbatim>\<open>%Y-%m-%d\<close>, the two clocks, the connections that the database returns
  (with the failures of the lookup), and the accounting platform, which for a connection
  raises or returns the three invoice candidate lists and the credit-note and overpayment
  dictionaries (after the filters of the service, which are not modelled). The cache and
  the rendering of the ledger are left out.
\<close>

record connection_data =
  conn_id :: int
  tenant_id :: string
  tenant_name :: string
  app_id :: int
  conn_business_type :: string

record raw_data =
  raw_unpaid :: "invoice list"
  raw_paid :: "invoice list"
  raw_early_paid :: "invoice list"
  raw_credit_notes :: "item_obj list"
  raw_overpayments :: "item_obj list"

datatype cause = Source_failed string | Crashed py_error

record failure =
  failed_connection_id :: int
  failed_tenant_id :: string
  failed_tenant_name :: string
  failed_app_id :: int
  failed_error :: cause

datatype event = Session_opened | Session_closed | Connection_started string

datatype response =
    Raise_HTTP int string
  | Raise_uncaught py_error
  | Completed report "failure list" nat

text \<open>
  The invoices of a connection, grouped by contact in the order of first appearance, and
  the calls that the service makes for a connection: the invoices group by group, the
  credit notes, the overpayments.
\<close>

fun group_by_contact ::
  "item_obj list \<Rightarrow> (pyval \<times> item_obj list) list \<Rightarrow> (pyval \<times> item_obj list) list" where
  "group_by_contact [] groups = groups"
| "group_by_contact (i # rest) groups =
     (let contact_name = get i ''contact'' (VStr ''Unknown Contact'')
      in group_by_contact rest
           (if contact_name \<in> set (map fst groups)
            then map (\<lambda>(c, is). if c = contact_name then (c, is @ [i]) else (c, is)) groups
            else groups @ [(contact_name, [i])]))"

definition item_call ::
  "connection_data \<Rightarrow> date \<Rightarrow> string \<Rightarrow> string \<Rightarrow> bool \<Rightarrow> string \<Rightarrow> item_obj \<Rightarrow> call" where
  "item_call conn report_date amount_field date_field is_negative item_type item =
     \<lparr>c_item = item, c_amount_field = amount_field, c_date_field = date_field,
      c_is_negative = is_negative, c_date_fallback = Some report_date,
      c_connection_name = Some (tenant_name conn),
      c_business_type = Some (conn_business_type conn), c_item_type = item_type\<rparr>"

text \<open>
  One contact's invoices: the service creates the entry of its own key when the ledger
  has none, then adds the invoices.
\<close>

definition add_contact_invoices ::
  "config \<Rightarrow> connection_data \<Rightarrow> report \<Rightarrow> pyval \<times> item_obj list \<Rightarrow> outcome" where
  "add_contact_invoices cfg conn report grp =
     (case py_str (fst grp) of
        Inl e \<Rightarrow> Raised e report
      | Inr c \<Rightarrow>
         (let key = conn_business_type conn @ ''|'' @ tenant_name conn @ ''|'' @ c;
              report1 =
                (if report key = None then
                   report(key \<mapsto>
                     \<lparr>business_unit = conn_business_type conn, company = tenant_name conn,
                      contact = fst grp,
                      bucket_amounts = map_of (map (\<lambda>name. (name, 0)) (cfg_bucket_names cfg)),
                      invoice_details = map_of (map (\<lambda>name. (name, [])) (cfg_bucket_names cfg))\<rparr>)
                 else report)
          in add_items cfg
               (map (\<lambda>i. item_call conn (cfg_report_date cfg) ''amount_due'' ''due_date''
                            (truthy (get i ''is_negative'' (VBool False))) ''invoice'' i)
                    (snd grp))
               report1))"

fun add_groups ::
  "config \<Rightarrow> connection_data \<Rightarrow> (pyval \<times> item_obj list) list \<Rightarrow> report \<Rightarrow> outcome" where
  "add_groups cfg conn [] report = Returned report"
| "add_groups cfg conn (g # gs) report =
     (case add_contact_invoices cfg conn report g of
        Returned report' \<Rightarrow> add_groups cfg conn gs report'
      | Raised e report' \<Rightarrow> Raised e report')"

definition add_connection_items ::
  "config \<Rightarrow> connection_data \<Rightarrow> item_obj list \<Rightarrow> item_obj list \<Rightarrow> item_obj list \<Rightarrow> report
     \<Rightarrow> outcome" where
  "add_connection_items cfg conn invoices credit_notes overpayments report =
     (case add_groups cfg conn (group_by_contact invoices []) report of
        Raised e report' \<Rightarrow> Raised e report'
      | Returned report' \<Rightarrow>
          add_items cfg
            (map (item_call conn (cfg_report_date cfg) ''remaining_credit'' ''date'' True
                    ''credit_note'') credit_notes
             @ map (item_call conn (cfg_report_date cfg) ''remaining_credit'' ''date'' True
                    ''overpayment'') overpayments)
            report')"

record run_state =
  all_report_data :: report
  failed_connections :: "failure list"
  total_invoices :: nat
  events :: "event list"

definition failed_with :: "connection_data \<Rightarrow> cause \<Rightarrow> failure" where
  "failed_with conn c =
     \<lparr>failed_connection_id = conn_id conn, failed_tenant_id = tenant_id conn,
      failed_tenant_name = tenant_name conn, failed_app_id = app_id conn, failed_error = c\<rparr>"

text \<open>
  The body of the loop over the connections: whatever the connection raises becomes a
  failure record, and the loop goes on with what the ledger holds by then.
\<close>

definition process_connection ::
  "config \<Rightarrow> bool \<Rightarrow> (connection_data \<Rightarrow> cause + raw_data) \<Rightarrow> run_state \<Rightarrow> connection_data
     \<Rightarrow> run_state" where
  "process_connection cfg is_future_date source st conn =
     (let st1 = st\<lparr>events := events st @ [Connection_started (tenant_id conn)]\<rparr>
      in case source conn of
           Inl c \<Rightarrow> st1\<lparr>failed_connections := failed_connections st1 @ [failed_with conn c]\<rparr>
         | Inr raw \<Rightarrow>
            (case get_unpaid_invoices is_future_date (cfg_report_date cfg) (raw_unpaid raw)
                    (raw_paid raw) (raw_early_paid raw) of
               Inl e \<Rightarrow>
                 st1\<lparr>failed_connections :=
                       failed_connections st1 @ [failed_with conn (Crashed e)]\<rparr>
             | Inr found \<Rightarrow>
                (let st2 = st1\<lparr>total_invoices := total_invoices st1 + length found\<rparr>
                 in case add_connection_items cfg conn (map invoice_item found)
                           (raw_credit_notes raw) (raw_overpayments raw) (all_report_data st2) of
                      Returned report' \<Rightarrow> st2\<lparr>all_report_data := report'\<rparr>
                    | Raised e report' \<Rightarrow>
                        st2\<lparr>all_report_data := report',
                            failed_connections :=
                              failed_connections st2 @ [failed_with conn (Crashed e)]\<rparr>)))"

definition generate_aged_receivables_report ::
  "(string \<Rightarrow> date option) \<Rightarrow> date \<Rightarrow> date \<Rightarrow> connection_data list \<times> failure list
     \<Rightarrow> (connection_data \<Rightarrow> cause + raw_data)
     \<Rightarrow> string option \<Rightarrow> int \<Rightarrow> int \<Rightarrow> string \<Rightarrow> bool \<Rightarrow> event list \<times> response" where
  "generate_aged_receivables_report strptime utc_today today database source
       report_date periods period_of period_type show_current =
     (if str_truthy report_date \<and> strptime (the report_date) = None then
        ([], Raise_HTTP 400 ''Invalid report_date format. Use YYYY-MM-DD.'')
      else
       (let report_date_obj =
              (if str_truthy report_date then the (strptime (the report_date)) else utc_today);
            is_future_date = date_less today report_date_obj;
            connection_data_list = fst database;
            failed0 = snd database
        in if connection_data_list = [] \<and> failed0 = [] then
             ([Session_opened, Session_closed],
              Raise_HTTP 404 ''No active Xero connections found'')
           else
            (let bucket_names = generate_bucket_names periods period_type show_current;
                 cfg = \<lparr>cfg_report_date = report_date_obj, cfg_periods = periods,
                        cfg_period_of = period_of, cfg_period_type = period_type,
                        cfg_bucket_names = bucket_names, cfg_show_current = show_current\<rparr>
             in \<comment> \<open>\<^verbatim>\<open>calculate_ttl_for_cache(report_date)\<close> parses the text again\<close>
                case report_date of
                  None \<Rightarrow> ([Session_opened, Session_closed], Raise_uncaught TypeError)
                | Some text \<Rightarrow>
                   if strptime text = None then
                     ([Session_opened, Session_closed], Raise_uncaught ValueError)
                   else
                    (let final =
                           foldl (process_connection cfg is_future_date source)
                             \<lparr>all_report_data = Map.empty, failed_connections = failed0,
                              total_invoices = 0,
                              events = [Session_opened, Session_closed]\<rparr>
                             connection_data_list
                     in (events final,
                         Completed (all_report_data final) (failed_connections final)
                           (total_invoices final))))))"

text \<open>
  A reading of \<^verbatim>\<open>datetime.strptime(text, "%Y-%m-%d").date()\<close> on ASCII text, for
  the examples: four digits, a month of one or two digits, a day of one or two digits,
  and a date that exists.
\<close>

definition digit_value :: "char \<Rightarrow> int option" where
  "digit_value c = map_of (zip ''0123456789'' [0, 1, 2, 3, 4, 5, 6, 7, 8, 9]) c"

fun digits_value :: "string \<Rightarrow> int \<Rightarrow> int option" where
  "digits_value [] acc = Some acc"
| "digits_value (c # cs) acc =
     (case digit_value c of None \<Rightarrow> None | Some v \<Rightarrow> digits_value cs (acc * 10 + v))"

definition split_dash :: "string \<Rightarrow> string \<times> string" where
  "split_dash s = (takeWhile (\<lambda>c. c \<noteq> CHR ''-'') s, drop 1 (dropWhile (\<lambda>c. c \<noteq> CHR ''-'') s))"

definition strptime_ymd :: "string \<Rightarrow> date option" where
  "strptime_ymd s =
     (let (ys, rest) = split_dash s;
          (ms, ds0) = split_dash rest;
          ds = (if length ds0 = 2 \<and> hd ds0 = CHR '' '' then drop 1 ds0 else ds0)
      in if length ys \<noteq> 4 \<or> length (filter (\<lambda>c. c = CHR ''-'') s) \<noteq> 2
            \<or> ms = [] \<or> 2 < length ms \<or> ds = [] \<or> 2 < length ds then None
         else
          (case (digits_value ys 0, digits_value ms 0, digits_value ds 0) of
             (Some y, Some m, Some d) \<Rightarrow>
               if valid_date (Date y m d) then Some (Date y m d) else None
           | _ \<Rightarrow> None))"


section \<open>Example inputs\<close>

text \<open>An overpayment as the service passes it, a plain dictionary.\<close>

definition overpayment_example :: item_obj where
  "overpayment_example =
     py_dict [(''overpayment_id'', VStr ''op-1''), (''remaining_credit'', VNum 100),
              (''date'', VDate (Date 2025 8 1)), (''status'', VStr ''AUTHORISED''),
              (''contact'', VStr ''Acme'')]"

text \<open>
  An invoice dictionary with an allocation, dated 2025-08-01 and due 2025-05-01, and a
  credit-note dictionary without allocations, dated 2025-08-01, with a due date 2025-05-01.
\<close>

definition allocated_invoice_example :: item_obj where
  "allocated_invoice_example =
     py_dict [(''invoice_number'', VStr ''INV-1''), (''invoice_id'', VStr ''id-1''),
              (''amount_due'', VNum 100), (''due_date'', VDate (Date 2025 5 1)),
              (''date'', VDate (Date 2025 8 1)), (''status'', VStr ''AUTHORISED''),
              (''contact'', VStr ''Acme''), (''allocations'', VList [VNum 25]),
              (''is_negative'', VBool False)]"

definition credit_note_example :: item_obj where
  "credit_note_example =
     py_dict [(''credit_note_number'', VStr ''CN-1''), (''credit_note_id'', VStr ''id-2''),
              (''remaining_credit'', VNum 100), (''date'', VDate (Date 2025 8 1)),
              (''due_date'', VDate (Date 2025 5 1)), (''status'', VStr ''AUTHORISED''),
              (''contact'', VStr ''Acme'')]"

text \<open>
  An invoice of 100 issued 2025-06-01 and due 2025-07-01, of which 40 are paid and 60 are
  due, with no dated payment.
\<close>

definition partly_paid_invoice :: invoice where
  "partly_paid_invoice =
     \<lparr>inv_type = ''ACCREC'', inv_status = ''AUTHORISED'', inv_date = Some (Date 2025 6 1),
      inv_due_date = Some (Date 2025 7 1), inv_fully_paid_on_date = None,
      inv_updated_date_utc = None, inv_amount_due = 60, inv_amount_paid = 40, inv_total = 100,
      inv_payments = [], inv_credit_notes = [], inv_number = VStr ''INV-7'',
      inv_id = VStr ''id-7'', inv_contact = Some (VStr ''Acme''), inv_allocations = VList []\<rparr>"

text \<open>
  The invoice of the end-to-end example: issued 2025-09-10, due 2025-09-25, one payment of
  500.00 on 2025-08-20.
\<close>

definition early_paid_invoice :: invoice where
  "early_paid_invoice =
     \<lparr>inv_type = ''ACCREC'', inv_status = ''PAID'', inv_date = Some (Date 2025 9 10),
      inv_due_date = Some (Date 2025 9 25), inv_fully_paid_on_date = None,
      inv_updated_date_utc = None, inv_amount_due = 0, inv_amount_paid = 500, inv_total = 500,
      inv_payments = [\<lparr>pay_date = Some (ADate (Date 2025 8 20)), pay_amount = 500\<rparr>],
      inv_credit_notes = [], inv_number = VStr ''INV-9'', inv_id = VStr ''id-9'',
      inv_contact = Some (VStr ''Acme''), inv_allocations = VList []\<rparr>"

definition example_connection :: connection_data where
  "example_connection =
     \<lparr>conn_id = 1, tenant_id = ''t-1'', tenant_name = ''Tenant'', app_id = 1,
      conn_business_type = ''Retail''\<rparr>"








section \<open>Properties\<close>

subsection \<open>Dates: the ordinal respects the order\<close>

lemma month_cases:
  "1 \<le> m \<Longrightarrow> m \<le> 12 \<Longrightarrow>
   m = 1 \<or> m = 2 \<or> m = 3 \<or> m = 4 \<or> m = 5 \<or> m = 6 \<or> m = 7 \<or> m = 8 \<or> m = 9 \<or> m = 10
   \<or> m = 11 \<or> m = (12::int)"
  by arith

lemma div_pred_step:
  fixes y k :: int
  assumes "0 < k"
  shows "y div k = (y - 1) div k + (if y mod k = 0 then 1 else 0)"
proof -
  define r where "r = y mod k"
  define q where "q = y div k"
  have y: "y = r + q * k" by (simp add: r_def q_def)
  have r: "0 \<le> r" "r < k" using assms by (auto simp: r_def)
  show ?thesis
  proof (cases "r = 0")
    case True
    have "y - 1 = (k - 1) + (q - 1) * k" by (simp add: y True algebra_simps)
    then have "(y - 1) div k = ((k - 1) + (q - 1) * k) div k" by (rule arg_cong)
    also have "\<dots> = (k - 1) div k + (q - 1)" using assms by (subst div_mult_self1) auto
    also have "(k - 1) div k = 0" using assms by simp
    finally show ?thesis using True by (simp add: q_def r_def)
  next
    case False
    have "y - 1 = (r - 1) + q * k" by (simp add: y)
    then have "(y - 1) div k = ((r - 1) + q * k) div k" by (rule arg_cong)
    also have "\<dots> = (r - 1) div k + q" using assms by (subst div_mult_self1) auto
    also have "(r - 1) div k = 0" using r False by simp
    finally show ?thesis using False by (simp add: q_def r_def)
  qed
qed

lemma leap_count:
  assumes "p400 \<Longrightarrow> p100" "p100 \<Longrightarrow> p4"
  shows "(if p4 then 1 else 0) - (if p100 then 1 else 0) + (if p400 then 1 else 0)
         = (if p4 \<and> (\<not> p100 \<or> p400) then 1 else (0::int))"
  using assms by auto

lemma days_before_year_Suc:
  "days_before_year (y + 1) = days_before_year y + 365 + (if is_leap y then 1 else 0)"
proof -
  define A where "A = (y - 1) div 4"
  define B where "B = (y - 1) div 100"
  define C where "C = (y - 1) div 400"
  define i4 :: int where "i4 = (if y mod 4 = 0 then 1 else 0)"
  define i100 :: int where "i100 = (if y mod 100 = 0 then 1 else 0)"
  define i400 :: int where "i400 = (if y mod 400 = 0 then 1 else 0)"
  have a: "y div 4 = A + i4" unfolding A_def i4_def by (rule div_pred_step) simp
  have b: "y div 100 = B + i100" unfolding B_def i100_def by (rule div_pred_step) simp
  have c: "y div 400 = C + i400" unfolding C_def i400_def by (rule div_pred_step) simp
  have d: "y mod 100 = 0" if "y mod 400 = 0"
    using that mod_mod_cancel[of 100 400 y] by simp
  have e: "y mod 4 = 0" if "y mod 100 = 0"
    using that mod_mod_cancel[of 4 100 y] by simp
  have leap: "i4 - i100 + i400 = (if is_leap y then 1 else 0)"
    unfolding i4_def i100_def i400_def is_leap_def using d e by (rule leap_count)
  have "days_before_year (y + 1) = y * 365 + (A + i4) - (B + i100) + (C + i400)"
    by (simp only: days_before_year_def add_diff_cancel_right' a b c)
  also have "\<dots> = ((y - 1) * 365 + A - B + C) + 365 + (i4 - i100 + i400)"
    by (simp only: algebra_simps)
  also have "(y - 1) * 365 + A - B + C = days_before_year y"
    by (simp only: days_before_year_def A_def B_def C_def)
  finally show ?thesis by (simp only: leap)
qed

lemma days_before_year_mono: "y \<le> y' \<Longrightarrow> days_before_year y \<le> days_before_year y'"
proof (induction y' rule: int_ge_induct)
  case base
  show ?case by simp
next
  case (step i)
  have "days_before_year i \<le> days_before_year (i + 1)"
    by (simp only: days_before_year_Suc split: if_split) simp
  with step show ?case by simp
qed

lemma day_of_year_bound:
  assumes "1 \<le> m" "m \<le> 12" "d \<le> days_in_month y m"
  shows "days_before_month y m + d \<le> 365 + (if is_leap y then 1 else 0)"
  using month_cases[OF assms(1,2)] assms(3)
  by (auto simp: days_before_month_def days_in_month_def)

lemma days_before_month_step:
  assumes "1 \<le> m" "m < m'" "m' \<le> 12"
  shows "days_before_month y m + days_in_month y m \<le> days_before_month y m'"
  using month_cases[of m] month_cases[of m'] assms
  by (auto simp: days_before_month_def days_in_month_def)

lemma days_before_month_nonneg: "0 \<le> days_before_month y m"
  by (simp add: days_before_month_def)

lemma toordinal_strict_mono:
  assumes "valid_date a" "valid_date b" "date_less a b"
  shows "toordinal a < toordinal b"
proof (cases "year a < year b")
  case True
  have "toordinal a \<le> days_before_year (year a) + 365 + (if is_leap (year a) then 1 else 0)"
    using assms(1) day_of_year_bound[of "month a" "day a" "year a"]
    by (simp add: toordinal_def valid_date_def)
  also have "\<dots> = days_before_year (year a + 1)"
    by (simp add: days_before_year_Suc)
  also have "\<dots> \<le> days_before_year (year b)"
    using True by (intro days_before_year_mono) simp
  also have "\<dots> < toordinal b"
    using assms(2) days_before_month_nonneg[of "year b" "month b"]
    by (simp add: toordinal_def valid_date_def)
  finally show ?thesis .
next
  case False
  then have y: "year a = year b"
    and rest: "month a < month b \<or> (month a = month b \<and> day a < day b)"
    using assms(3) by (auto simp: date_less_def)
  show ?thesis
  proof (cases "month a < month b")
    case True
    have "days_before_month (year a) (month a) + day a
            \<le> days_before_month (year a) (month a) + days_in_month (year a) (month a)"
      using assms(1) by (simp add: valid_date_def)
    also have "\<dots> \<le> days_before_month (year a) (month b)"
      using True assms(1,2) by (intro days_before_month_step) (simp_all add: valid_date_def)
    also have "\<dots> < days_before_month (year a) (month b) + day b"
      using assms(2) by (simp add: valid_date_def)
    finally show ?thesis by (simp add: toordinal_def y)
  next
    case False
    with rest show ?thesis by (simp add: toordinal_def y)
  qed
qed

lemma days_between_negative:
  "valid_date a \<Longrightarrow> valid_date b \<Longrightarrow> date_less a b \<Longrightarrow> days_between a b < 0"
  using toordinal_strict_mono[of a b] by (simp add: days_between_def)

lemma days_between_nonneg:
  "valid_date a \<Longrightarrow> valid_date b \<Longrightarrow> date_le b a \<Longrightarrow> 0 \<le> days_between a b"
  using toordinal_strict_mono[of b a] by (auto simp: days_between_def date_le_def)

lemma date_less_not_le: "date_less a b \<Longrightarrow> \<not> date_le b a"
  by (cases a; cases b) (auto simp: date_less_def date_le_def)

lemma not_date_less_le: "\<not> date_less a b \<Longrightarrow> date_le b a"
  by (cases a; cases b) (auto simp: date_less_def date_le_def)

subsection \<open>Evaluation of the string functions\<close>

lemma str_int_small:
  "str_int 1 = ''1''" "str_int 2 = ''2''" "str_int 3 = ''3''"
  by (simp_all add: str_int_def str_nat.simps digit_char_def)

lemma lower_Month: "lower ''Month'' = ''month''"
  by (simp add: lower_def lower_char_def)

lemmas date_eval = valid_date_def days_in_month_def is_leap_def date_less_def date_le_def
  days_between_def toordinal_def days_before_year_def days_before_month_def

lemma upto_from_1: "[1..numeral n] = 1 # [2..numeral n]"
  by (subst upto.simps) simp

lemma names4:
  "generate_bucket_names 4 ''Month'' True
     = [''Current'', ''< 1 Month'', ''1 Month'', ''2 Months'', ''3 Months'', ''Older'']"
  by (simp add: generate_bucket_names_def bucket_name_def str_int_small plural_def upto_from_1)

subsection \<open>Evaluation of the float operations\<close>

lemma scale_numeral:
  "scale (numeral k) m e =
     (if 2 ^ 53 \<le> m then scale (pred_numeral k) (m / 2) (e + 1)
      else if m < 2 ^ 52 \<and> - 1074 < e then scale (pred_numeral k) (m * 2) (e - 1)
      else (m, e))"
  by (simp add: numeral_eq_Suc)

lemma floor_rat_numeral_divide:
  "\<lfloor>numeral a / numeral b :: rat\<rfloor> = numeral a div numeral b"
  by (metis floor_divide_of_int_eq of_int_numeral)

lemmas float_eval = float_add_def to_float_def scale_numeral round_half_even_def pow2_def
  Let_def floor_rat_numeral_divide

lemma to_float_small: "to_float 60 = 60" "to_float 100 = 100" "to_float 500 = 500"
  by (simp_all add: float_eval)

lemma float_add_small:
  "float_add 0 500 = 500" "float_add 0 (- 500) = - 500" "float_add 0 (- 100) = - 100"
  by (simp_all add: float_eval)

lemmas item_eval = process_financial_item_def item_identifiers_def select_item_date_def
  item_bucket_def item_key_def new_entry_def py_dict_def get_def hasattr_def dict_attributes_def
  str_truthy_def str_or_def

subsection \<open>The loops of the classifier\<close>

lemma month_loop_upto:
  "month_loop [a..b] months_diff period_type =
     (if a \<le> months_diff \<and> months_diff \<le> b
      then str_int months_diff @ '' '' @ period_type @ plural months_diff
      else ''Older'')"
proof (induction a b rule: upto.induct)
  case (1 i j)
  show ?case
  proof (cases "i \<le> j")
    case True
    then have "[i..j] = i # [i + 1..j]" by (simp add: upto.simps)
    with 1 True show ?thesis by auto
  next
    case False
    then show ?thesis by auto
  qed
qed

lemma period_loop_cases:
  "period_loop xs days days_per_period period_type = ''Older''
   \<or> period_loop xs days days_per_period period_type \<in> bucket_name period_type ` set xs"
  by (induction xs) (auto simp: bucket_name_def)

subsection \<open>The classifier\<close>

text \<open>
  C7. A due date strictly after the report date is classified \<open>Current\<close>, whatever the
  number of periods, their length, their type and the \<open>show_current\<close> flag are.
\<close>

theorem future_due_date_is_current:
  assumes "valid_date report_date" and "valid_date due" and "date_less report_date due"
  shows "calculate_aging_bucket report_date due periods period_of period_type show_current
           = ''Current''"
  using days_between_negative[OF assms] by (simp add: calculate_aging_bucket_def)

theorem future_due_date_is_current_witness:
  "valid_date (Date 2025 8 15) \<and> valid_date (Date 2025 9 1)
   \<and> date_less (Date 2025 8 15) (Date 2025 9 1)
   \<and> calculate_aging_bucket (Date 2025 8 15) (Date 2025 9 1) 4 1 ''Month'' True = ''Current''"
proof -
  have v1: "valid_date (Date 2025 8 15)" by (simp add: date_eval)
  have v2: "valid_date (Date 2025 9 1)" by (simp add: date_eval)
  have l: "date_less (Date 2025 8 15) (Date 2025 9 1)" by (simp add: date_eval)
  from future_due_date_is_current[OF v1 v2 l] v1 v2 l show ?thesis by simp
qed

text \<open>
  C4, the example as the claim has it: the due date 2025-05-20 seen from 2025-08-15 with four
  monthly periods is not classified \<open>3 Months\<close>. The day of the report date (15) is before
  the day of the due date (20), so the three months between May and August count as two.
\<close>

theorem month_example_counterexample:
  "calculate_aging_bucket (Date 2025 8 15) (Date 2025 5 20) 4 1 ''Month'' True \<noteq> ''3 Months''"
  by (simp add: calculate_aging_bucket_def date_eval lower_Month str_int_small plural_def)

text \<open>
  C4, amended. For a due date on or before the report date, a period type that reads
  \<open>month\<close> in lower case and at least two periods: the months between the two dates, less
  one when the day of the report date is before the day of the due date, select
  \<open>< 1 Month\<close> (at most 0), \<open>1 Month\<close> (exactly 1), \<open>i Months\<close> (2 up to
  periods - 1) and \<open>Older\<close> (periods and more). The example of the claim gives
  \<open>2 Months\<close>.
\<close>

theorem month_classification:
  assumes "valid_date report_date" and "valid_date due" and "date_le due report_date"
    and "lower period_type = ''month''" and "2 \<le> periods"
  shows "calculate_aging_bucket report_date due periods period_of period_type show_current
           = (let months_diff = (year report_date - year due) * 12
                                  + (month report_date - month due)
                                  - (if day report_date < day due then 1 else 0)
              in if months_diff \<le> 0 then ''< 1 '' @ period_type
                 else if months_diff = 1 then ''1 '' @ period_type
                 else if months_diff < periods
                      then str_int months_diff @ '' '' @ period_type @ ''s''
                 else ''Older'')
         \<and> calculate_aging_bucket (Date 2025 8 15) (Date 2025 5 20) 4 1 ''Month'' True
           = ''2 Months''"
proof
  have "0 \<le> days_between report_date due"
    using assms(1-3) by (rule days_between_nonneg)
  then show "calculate_aging_bucket report_date due periods period_of period_type show_current
           = (let months_diff = (year report_date - year due) * 12
                                  + (month report_date - month due)
                                  - (if day report_date < day due then 1 else 0)
              in if months_diff \<le> 0 then ''< 1 '' @ period_type
                 else if months_diff = 1 then ''1 '' @ period_type
                 else if months_diff < periods
                      then str_int months_diff @ '' '' @ period_type @ ''s''
                 else ''Older'')"
    using assms(4)
    by (auto simp: calculate_aging_bucket_def Let_def month_loop_upto plural_def)
next
  show "calculate_aging_bucket (Date 2025 8 15) (Date 2025 5 20) 4 1 ''Month'' True
           = ''2 Months''"
    by (simp add: calculate_aging_bucket_def date_eval lower_Month str_int_small plural_def)
qed

theorem month_classification_witness:
  "valid_date (Date 2025 8 15) \<and> valid_date (Date 2025 4 15)
   \<and> date_le (Date 2025 4 15) (Date 2025 8 15) \<and> lower ''Month'' = ''month'' \<and> (2::int) \<le> 4
   \<and> calculate_aging_bucket (Date 2025 8 15) (Date 2025 4 15) 4 1 ''Month'' True = ''Older''
   \<and> calculate_aging_bucket (Date 2025 8 15) (Date 2025 5 15) 4 1 ''Month'' True = ''3 Months''"
proof -
  have v1: "valid_date (Date 2025 8 15)" by (simp add: date_eval)
  have v2: "valid_date (Date 2025 4 15)" by (simp add: date_eval)
  have v3: "valid_date (Date 2025 5 15)" by (simp add: date_eval)
  have l2: "date_le (Date 2025 4 15) (Date 2025 8 15)" by (simp add: date_eval)
  have l3: "date_le (Date 2025 5 15) (Date 2025 8 15)" by (simp add: date_eval)
  have p: "(2::int) \<le> 4" by simp
  from month_classification[OF v1 v2 l2 lower_Month p, of 1 True]
       month_classification[OF v1 v3 l3 lower_Month p, of 1 True]
       v1 v2 l2 lower_Month
  show ?thesis by (simp add: str_int_small)
qed

text \<open>
  C1, at one monthly period: a due date one month before the report date is classified
  \<open>1 Month\<close>, and the names generated for one period are \<open>Current\<close>, \<open>< 1 Month\<close>
  and \<open>Older\<close>.
\<close>

theorem single_month_bucket_not_in_names:
  "calculate_aging_bucket (Date 2025 8 15) (Date 2025 7 15) 1 1 ''Month'' True
     \<notin> set (generate_bucket_names 1 ''Month'' True)"
  by (simp add: calculate_aging_bucket_def generate_bucket_names_def bucket_name_def date_eval
      lower_Month str_int_small plural_def)

text \<open>
  Everywhere else the bucket is one of the generated names: for a positive number of day
  or week periods, and for two monthly periods or more.
\<close>

lemma bucket_in_names:
  assumes "1 \<le> periods" and "lower period_type = ''month'' \<Longrightarrow> 2 \<le> periods"
  shows "calculate_aging_bucket report_date due periods period_of period_type show_current
           \<in> set (generate_bucket_names periods period_type show_current)"
proof -
  have first: "''< 1 '' @ period_type \<in> bucket_name period_type ` {1..periods}"
    using assms(1) by (auto simp: bucket_name_def image_iff intro!: bexI[of _ 1])
  have later: "str_int i @ '' '' @ period_type @ plural i \<in> bucket_name period_type ` {1..periods}"
    if "1 \<le> i" "i < periods" for i
    using that by (auto simp: bucket_name_def image_iff intro!: bexI[of _ "i + 1"])
  have one: "''1 '' @ period_type \<in> bucket_name period_type ` {1..periods}"
    if "2 \<le> periods"
    using later[of 1] that by (simp add: str_int_small plural_def)
  show ?thesis
    using first later one assms(2) period_loop_cases[of "[1..periods]"]
    by (auto simp: calculate_aging_bucket_def generate_bucket_names_def Let_def
        month_loop_upto)
qed


subsection \<open>Items\<close>

text \<open>A dictionary has none of the attributes that the reference-date rules look for.\<close>

lemma hasattr_dict:
  "\<not> hasattr (py_dict kvs) ''allocations''" "\<not> hasattr (py_dict kvs) ''due_date''"
  "\<not> hasattr (py_dict kvs) ''DueDate''"
  by (simp_all add: hasattr_def py_dict_def dict_attributes_def)

text \<open>
  So the reference date of a dictionary is the value of its date field, or the fallback:
  neither its allocations nor, for a credit note, its due date are looked at.
\<close>

lemma dict_item_date:
  "select_item_date (py_dict kvs) date_field item_type date_fallback report_date
     = (if truthy (get (py_dict kvs) date_field VNone) then get (py_dict kvs) date_field VNone
        else VDate (case date_fallback of Some d \<Rightarrow> d | None \<Rightarrow> report_date))"
  by (simp add: select_item_date_def hasattr_dict Let_def)

text \<open>An object that does carry the attribute gets the date of rule (a).\<close>

lemma attribute_item_date:
  assumes "hasattr item ''allocations''" "truthy (get item ''allocations'' (VList []))"
    "truthy (get item ''date'' VNone)"
  shows "select_item_date item date_field item_type date_fallback report_date
           = get item ''date'' VNone"
  using assms by (simp add: select_item_date_def Let_def)

text \<open>
  C5, on two dictionaries. The invoice has an allocation and a \<open>date\<close>, and its reference
  date is still its \<open>due_date\<close>, the date field of the call; the credit note has no
  allocations and a \<open>due_date\<close>, and its reference date is its \<open>date\<close>, the date field of
  the call.
\<close>

theorem dict_item_ignores_allocations_and_due_date:
  "truthy (get allocated_invoice_example ''allocations'' (VList []))
   \<and> get allocated_invoice_example ''date'' VNone = VDate (Date 2025 8 1)
   \<and> select_item_date allocated_invoice_example ''due_date'' ''invoice''
        (Some (Date 2025 8 15)) (Date 2025 8 15) = VDate (Date 2025 5 1)
   \<and> get credit_note_example ''due_date'' VNone = VDate (Date 2025 5 1)
   \<and> select_item_date credit_note_example ''date'' ''credit_note''
        (Some (Date 2025 8 15)) (Date 2025 8 15) = VDate (Date 2025 8 1)"
  by (simp add: allocated_invoice_example_def credit_note_example_def dict_item_date)
     (simp add: py_dict_def get_def)

text \<open>An item of type \<open>overpayment\<close> gets the identifiers of the last branch.\<close>

lemma overpayment_identifiers:
  "item_identifiers item ''overpayment'' = Inr (VStr ''Unknown'', VNone, VNone)"
  by (simp add: item_identifiers_def)

lemma overpayment_bucket:
  "calculate_aging_bucket (Date 2025 8 15) (Date 2025 8 1) 4 1 ''Month'' True = ''< 1 Month''"
  by (simp add: calculate_aging_bucket_def date_eval lower_Month)

text \<open>
  C6, on an overpayment dictionary with \<open>overpayment_id\<close> \<open>op-1\<close>: the item detail that the
  call records has the number \<open>Unknown\<close> and no id.
\<close>

theorem overpayment_identifiers_unknown:
  "\<exists>report'. process_financial_item overpayment_example (Date 2025 8 15) 4 1 ''Month''
       (generate_bucket_names 4 ''Month'' True) Map.empty ''remaining_credit'' ''date'' True
       (Some (Date 2025 8 15)) (Some ''Tenant'') (Some ''Retail'') ''overpayment'' True
     = Returned report'
   \<and> map_option (\<lambda>e. invoice_details e ''< 1 Month'') (report' ''Retail|Tenant|Acme'')
     = Some (Some [\<lparr>detail_number = VStr ''Unknown'', detail_id = VNone, detail_amount = - 100,
                     detail_is_negative = True, detail_status = VNone,
                     detail_type = ''overpayment''\<rparr>])"
  by (simp add: item_eval overpayment_example_def names4 overpayment_bucket to_float_small float_add_small)



subsection \<open>The reconciler\<close>

lemma on_or_before_not_after: "on_or_before x d \<Longrightarrow> \<not> after x d"
  by (auto simp: on_or_before_def after_def split: option.splits dest: date_less_not_le)

text \<open>
  C3. A Set-A invoice of a past or present report date that was issued and due on or
  before the report date, with a positive amount paid and a positive amount due, and whose
  resolved payment date is not after the report date (rule 6), is included with a positive
  sign and with the float of its amount due. Rules 1 and 3 need a due date after the
  report date, rules 2 and 5 an amount due of zero and rule 4 an issue date after the
  report date, so none of them applies to such an invoice.
\<close>

theorem partial_payment_rule_is_positive:
  assumes "inv_type invoice = ''ACCREC''"
    and "on_or_before (inv_date invoice) report_date"
    and "on_or_before (inv_due_date invoice) report_date"
    and "inv_amount_paid invoice > 0" and "inv_amount_due invoice > 0"
    and "\<not> after (resolve_payment_date report_date invoice) report_date"
  shows "unpaid_step False report_date invoice
           = Some \<lparr>listed_invoice = invoice\<lparr>inv_amount_due := to_float (inv_amount_due invoice)\<rparr>,
                   listed_is_negative = False\<rparr>"
proof -
  have due: "\<not> after (inv_due_date invoice) report_date"
    using assms(3) by (rule on_or_before_not_after)
  have issue: "\<not> after (inv_date invoice) report_date"
    using assms(2) by (rule on_or_before_not_after)
  have nz: "inv_amount_due invoice \<noteq> 0" using assms(5) by simp
  have "decide report_date invoice
          = \<lparr>should_include = True, negative = False,
             report_amount = to_float (inv_amount_due invoice)\<rparr>"
    unfolding decide_def Let_def
    by (simp only: due issue nz assms(2-6) simp_thms if_True if_False)
  then show ?thesis
    using assms(1,2) by (simp add: unpaid_step_def)
qed

theorem partial_payment_rule_is_positive_witness:
  "inv_type partly_paid_invoice = ''ACCREC''
   \<and> on_or_before (inv_date partly_paid_invoice) (Date 2025 8 31)
   \<and> on_or_before (inv_due_date partly_paid_invoice) (Date 2025 8 31)
   \<and> inv_amount_paid partly_paid_invoice > 0 \<and> inv_amount_due partly_paid_invoice > 0
   \<and> \<not> after (resolve_payment_date (Date 2025 8 31) partly_paid_invoice) (Date 2025 8 31)
   \<and> unpaid_step False (Date 2025 8 31) partly_paid_invoice
       = Some \<lparr>listed_invoice = partly_paid_invoice\<lparr>inv_amount_due := 60\<rparr>,
               listed_is_negative = False\<rparr>"
proof -
  have h1: "inv_type partly_paid_invoice = ''ACCREC''" by (simp add: partly_paid_invoice_def)
  have h2: "on_or_before (inv_date partly_paid_invoice) (Date 2025 8 31)"
    by (simp add: partly_paid_invoice_def on_or_before_def date_eval)
  have h3: "on_or_before (inv_due_date partly_paid_invoice) (Date 2025 8 31)"
    by (simp add: partly_paid_invoice_def on_or_before_def date_eval)
  have h4: "inv_amount_paid partly_paid_invoice > 0" by (simp add: partly_paid_invoice_def)
  have h5: "inv_amount_due partly_paid_invoice > 0" by (simp add: partly_paid_invoice_def)
  have h6: "\<not> after (resolve_payment_date (Date 2025 8 31) partly_paid_invoice) (Date 2025 8 31)"
    by (simp add: partly_paid_invoice_def resolve_payment_date_def after_def)
  have f: "to_float (inv_amount_due partly_paid_invoice) = 60"
    by (simp add: partly_paid_invoice_def to_float_small)
  from partial_payment_rule_is_positive[OF h1 h2 h3 h4 h5 h6] h1 h2 h3 h4 h5 h6 f
  show ?thesis by simp
qed

text \<open>The table gives a negative sign to an invoice issued after the report date only.\<close>

lemma decide_negative:
  "negative (decide report_date invoice) \<Longrightarrow> after (inv_date invoice) report_date"
  unfolding decide_def Let_def
  by (simp split: if_splits)

lemma unpaid_step_not_negative:
  assumes "unpaid_step is_future_date report_date invoice = Some l"
  shows "\<not> listed_is_negative l"
proof
  assume neg: "listed_is_negative l"
  show False
  proof (cases "is_future_date \<and> inv_type invoice = ''ACCREC'' \<and> inv_amount_due invoice > 0
         \<and> inv_status invoice = ''AUTHORISED''
         \<and> on_or_before (inv_date invoice) report_date")
    case True
    with assms neg show False by (auto simp: unpaid_step_def)
  next
    case False
    with assms have before: "on_or_before (inv_date invoice) report_date"
      and l: "l = \<lparr>listed_invoice =
                     invoice\<lparr>inv_amount_due := report_amount (decide report_date invoice)\<rparr>,
                   listed_is_negative = negative (decide report_date invoice)\<rparr>"
      by (auto simp: unpaid_step_def Let_def split: if_splits)
    from l neg have "negative (decide report_date invoice)" by simp
    then have "after (inv_date invoice) report_date" by (rule decide_negative)
    with before show False by (simp add: on_or_before_not_after)
  qed
qed

text \<open>
  C10. An invoice that the loop over Set A lists is never negative: the loop enters the
  table only for an issue date on or before the report date, and the one negative rule
  needs an issue date after it.
\<close>

theorem set_a_never_negative:
  assumes "unpaid_step is_future_date report_date invoice = Some l"
  shows "\<not> listed_is_negative l"
  using assms by (rule unpaid_step_not_negative)

theorem set_a_never_negative_witness:
  "unpaid_step False (Date 2025 8 31) partly_paid_invoice
     = Some \<lparr>listed_invoice = partly_paid_invoice\<lparr>inv_amount_due := 60\<rparr>,
             listed_is_negative = False\<rparr>
   \<and> \<not> listed_is_negative \<lparr>listed_invoice = partly_paid_invoice\<lparr>inv_amount_due := 60\<rparr>,
                             listed_is_negative = False\<rparr>"
proof -
  have f: "to_float 60 = 60" by (rule to_float_small)
  have s: "unpaid_step False (Date 2025 8 31) partly_paid_invoice
     = Some \<lparr>listed_invoice = partly_paid_invoice\<lparr>inv_amount_due := 60\<rparr>,
             listed_is_negative = False\<rparr>"
    by (simp add: unpaid_step_def decide_def resolve_payment_date_def partly_paid_invoice_def
        on_or_before_def after_def on_or_after_def on_day_def date_eval f Let_def)
  from set_a_never_negative[OF s] s show ?thesis by simp
qed

text \<open>With no candidate issued after the report date, nothing listed is negative.\<close>

lemma paid_never_negative:
  "get_unpaid_invoices is_future_date report_date unpaid_invoices paid_invoices [] = Inr found
   \<Longrightarrow> l \<in> set found \<Longrightarrow> \<not> listed_is_negative l"
  using unpaid_step_not_negative
  by (fastforce simp: get_unpaid_invoices_def Let_def List.map_filter_def)



text \<open>The end-to-end example, step by step.\<close>

lemma strptime_example: "strptime_ymd ''2025-08-31'' = Some (Date 2025 8 31)"
  by (simp add: strptime_ymd_def split_dash_def digit_value_def date_eval)

lemma early_example_bucket:
  "calculate_aging_bucket (Date 2025 8 31) (Date 2025 9 25) periods period_of period_type
     show_current = ''Current''"
  by (simp add: calculate_aging_bucket_def date_eval)

lemma early_paid_reconciled:
  assumes "inv_type invoice = ''ACCREC''"
    and "inv_date invoice = Some (Date 2025 9 10)"
    and "inv_due_date invoice = Some (Date 2025 9 25)"
    and "inv_payments invoice = [p]"
    and "pay_amount p = 500"
    and "map_option dt_date (pay_date p) = Some (Date 2025 8 20)"
  shows "get_unpaid_invoices False (Date 2025 8 31) [] [] [invoice]
           = Inr [\<lparr>listed_invoice = invoice\<lparr>inv_amount_due := 500\<rparr>, listed_is_negative = True\<rparr>]"
proof -
  obtain dt where dt: "pay_date p = Some dt" "dt_date dt = Date 2025 8 20"
    using assms(6) by auto
  have paid: "paid_up_to (Date 2025 8 31) [p] (0, False) = (500, True)"
    by (simp add: dt assms(5) date_eval to_float_small float_add_small)
  have step: "early_paid_step (Date 2025 8 31) None invoice
      = Inr (Some \<lparr>listed_invoice = invoice\<lparr>inv_amount_due := 500\<rparr>, listed_is_negative = True\<rparr>,
             Some True)"
    by (simp add: early_paid_step_def assms(1-4) paid on_or_before_def after_def
        on_or_after_def date_eval Let_def del: paid_up_to.simps)
  show ?thesis
    by (simp add: get_unpaid_invoices_def List.map_filter_def step)
qed

lemma early_paid_bucket:
  assumes "inv_due_date invoice = Some (Date 2025 9 25)"
  shows "item_bucket (Date 2025 8 31)
           (select_item_date
              (invoice_item \<lparr>listed_invoice = invoice\<lparr>inv_amount_due := 500\<rparr>,
                             listed_is_negative = True\<rparr>)
              ''due_date'' ''invoice'' (Some (Date 2025 8 31)) (Date 2025 8 31))
           periods period_of period_type show_current = Inr ''Current''"
  by (simp add: invoice_item_def dict_item_date Let_def)
     (simp add: py_dict_def get_def assms opt_date_def item_bucket_def early_example_bucket)

lemma early_paid_ledger:
  assumes "get_unpaid_invoices False (Date 2025 8 31) [] [] [invoice]
           = Inr [\<lparr>listed_invoice = invoice\<lparr>inv_amount_due := 500\<rparr>, listed_is_negative = True\<rparr>]"
    and "inv_due_date invoice = Some (Date 2025 9 25)"
    and "inv_contact invoice = Some (VStr c)"
    and "\<not> date_less today (Date 2025 8 31)"
  shows "\<exists>ledger. generate_aged_receivables_report strptime_ymd utc_today today
             ([example_connection], [])
             (\<lambda>conn. Inr \<lparr>raw_unpaid = [], raw_paid = [], raw_early_paid = [invoice],
                          raw_credit_notes = [], raw_overpayments = []\<rparr>)
             (Some ''2025-08-31'') 4 1 ''Month'' True
           = ([Session_opened, Session_closed, Connection_started ''t-1''],
              Completed ledger [] 1)
         \<and> map_option (\<lambda>e. map (bucket_amounts e) (generate_bucket_names 4 ''Month'' True))
              (ledger (''Retail|Tenant|'' @ c))
             = Some [Some (- 500), Some 0, Some 0, Some 0, Some 0, Some 0]"
  apply (simp add: generate_aged_receivables_report_def str_truthy_def strptime_example
      example_connection_def assms(4) Let_def process_connection_def assms(1)
      add_connection_items_def names4)
  apply (simp add: invoice_item_def add_contact_invoices_def item_call_def add_item_def
      py_dict_def get_def assms(2,3) opt_date_def process_financial_item_def
      item_identifiers_def select_item_date_def hasattr_def dict_attributes_def
      item_bucket_def early_example_bucket item_key_def str_truthy_def to_float_small
      float_add_small Let_def)
  done

text \<open>
  C2. An invoice issued 2025-09-10 and due 2025-09-25 with one payment of 500.00 dated
  2025-08-20, among the candidates issued after the report date 2025-08-31 of a report
  that is not for a future date: the reconciler lists it with the amount 500 and a
  negative sign, the classifier puts its due date into \<open>Current\<close> under every
  configuration, and the ledger of the report (four monthly periods, one connection) holds
  -500 in \<open>Current\<close> and zero in every other bucket of the invoice's contact.
\<close>

theorem early_paid_example:
  assumes "inv_type invoice = ''ACCREC''"
    and "inv_date invoice = Some (Date 2025 9 10)"
    and "inv_due_date invoice = Some (Date 2025 9 25)"
    and "inv_payments invoice = [p]"
    and "pay_amount p = 500"
    and "map_option dt_date (pay_date p) = Some (Date 2025 8 20)"
    and "inv_contact invoice = Some (VStr c)"
    and "\<not> date_less today (Date 2025 8 31)"
  shows "get_unpaid_invoices False (Date 2025 8 31) [] [] [invoice]
           = Inr [\<lparr>listed_invoice = invoice\<lparr>inv_amount_due := 500\<rparr>, listed_is_negative = True\<rparr>]
         \<and> item_bucket (Date 2025 8 31)
             (select_item_date
                (invoice_item \<lparr>listed_invoice = invoice\<lparr>inv_amount_due := 500\<rparr>,
                               listed_is_negative = True\<rparr>)
                ''due_date'' ''invoice'' (Some (Date 2025 8 31)) (Date 2025 8 31))
             periods period_of period_type show_current = Inr ''Current''
         \<and> (\<exists>ledger. generate_aged_receivables_report strptime_ymd utc_today today
                ([example_connection], [])
                (\<lambda>conn. Inr \<lparr>raw_unpaid = [], raw_paid = [], raw_early_paid = [invoice],
                             raw_credit_notes = [], raw_overpayments = []\<rparr>)
                (Some ''2025-08-31'') 4 1 ''Month'' True
              = ([Session_opened, Session_closed, Connection_started ''t-1''],
                 Completed ledger [] 1)
            \<and> map_option (\<lambda>e. map (bucket_amounts e) (generate_bucket_names 4 ''Month'' True))
                 (ledger (''Retail|Tenant|'' @ c))
                = Some [Some (- 500), Some 0, Some 0, Some 0, Some 0, Some 0])"
  using early_paid_reconciled[OF assms(1-6)] early_paid_bucket[OF assms(3)]
    early_paid_ledger[OF early_paid_reconciled[OF assms(1-6)] assms(3,7,8)]
  by blast

theorem early_paid_example_witness:
  "inv_type early_paid_invoice = ''ACCREC''
   \<and> inv_date early_paid_invoice = Some (Date 2025 9 10)
   \<and> inv_due_date early_paid_invoice = Some (Date 2025 9 25)
   \<and> inv_payments early_paid_invoice
       = [\<lparr>pay_date = Some (ADate (Date 2025 8 20)), pay_amount = 500\<rparr>]
   \<and> inv_contact early_paid_invoice = Some (VStr ''Acme'')
   \<and> \<not> date_less (Date 2025 9 30) (Date 2025 8 31)
   \<and> get_unpaid_invoices False (Date 2025 8 31) [] [] [early_paid_invoice]
       = Inr [\<lparr>listed_invoice = early_paid_invoice\<lparr>inv_amount_due := 500\<rparr>,
               listed_is_negative = True\<rparr>]
   \<and> item_bucket (Date 2025 8 31)
        (select_item_date
           (invoice_item \<lparr>listed_invoice = early_paid_invoice\<lparr>inv_amount_due := 500\<rparr>,
                          listed_is_negative = True\<rparr>)
           ''due_date'' ''invoice'' (Some (Date 2025 8 31)) (Date 2025 8 31))
        4 1 ''Month'' True = Inr ''Current''
   \<and> (\<exists>ledger. generate_aged_receivables_report strptime_ymd (Date 2025 9 30) (Date 2025 9 30)
          ([example_connection], [])
          (\<lambda>conn. Inr \<lparr>raw_unpaid = [], raw_paid = [], raw_early_paid = [early_paid_invoice],
                       raw_credit_notes = [], raw_overpayments = []\<rparr>)
          (Some ''2025-08-31'') 4 1 ''Month'' True
        = ([Session_opened, Session_closed, Connection_started ''t-1''],
           Completed ledger [] 1)
      \<and> map_option (\<lambda>e. map (bucket_amounts e) (generate_bucket_names 4 ''Month'' True))
           (ledger ''Retail|Tenant|Acme'')
          = Some [Some (- 500), Some 0, Some 0, Some 0, Some 0, Some 0])"
proof -
  have h1: "inv_type early_paid_invoice = ''ACCREC''" by (simp add: early_paid_invoice_def)
  have h2: "inv_date early_paid_invoice = Some (Date 2025 9 10)"
    by (simp add: early_paid_invoice_def)
  have h3: "inv_due_date early_paid_invoice = Some (Date 2025 9 25)"
    by (simp add: early_paid_invoice_def)
  have h4: "inv_payments early_paid_invoice
       = [\<lparr>pay_date = Some (ADate (Date 2025 8 20)), pay_amount = 500\<rparr>]"
    by (simp add: early_paid_invoice_def)
  have h5: "pay_amount \<lparr>pay_date = Some (ADate (Date 2025 8 20)), pay_amount = 500\<rparr> = 500"
    by simp
  have h6: "map_option dt_date
              (pay_date \<lparr>pay_date = Some (ADate (Date 2025 8 20)), pay_amount = 500\<rparr>)
            = Some (Date 2025 8 20)"
    by simp
  have h7: "inv_contact early_paid_invoice = Some (VStr ''Acme'')"
    by (simp add: early_paid_invoice_def)
  have h8: "\<not> date_less (Date 2025 9 30) (Date 2025 8 31)" by (simp add: date_eval)
  from early_paid_example[OF h1 h2 h3 h4 h5 h6 h7 h8, of 4 1 "''Month''" True "Date 2025 9 30"]
    h1 h2 h3 h4 h7 h8
  show ?thesis by simp
qed


subsection \<open>The report run\<close>

text \<open>Every connection of the loop leaves one event, in order.\<close>

lemma process_connection_events:
  "events (process_connection cfg is_future_date source st conn)
     = events st @ [Connection_started (tenant_id conn)]"
  by (simp add: process_connection_def Let_def split: sum.splits outcome.splits)

lemma connections_events:
  "events (foldl (process_connection cfg is_future_date source) st conns)
     = events st @ map (\<lambda>c. Connection_started (tenant_id c)) conns"
  by (induction conns arbitrary: st) (simp_all add: process_connection_events)


text \<open>
  C9, as the claim has it, at the empty text. An empty report date is given but is not
  truthy, so it is not parsed: the database is read, and the request ends in an uncaught
  \<^verbatim>\<open>ValueError\<close> of \<^verbatim>\<open>calculate_ttl_for_cache\<close>, not in the HTTP error 400.
\<close>

theorem empty_report_date_not_rejected:
  "strptime_ymd [] = None
   \<and> generate_aged_receivables_report strptime_ymd (Date 2025 9 1) (Date 2025 9 1)
        ([example_connection], []) (\<lambda>c. Inl (Source_failed ''unreachable''))
        (Some []) 4 1 ''Month'' True
      = ([Session_opened, Session_closed], Raise_uncaught ValueError)
   \<and> generate_aged_receivables_report strptime_ymd (Date 2025 9 1) (Date 2025 9 1)
        ([example_connection], []) (\<lambda>c. Inl (Source_failed ''unreachable''))
        (Some []) 4 1 ''Month'' True
      \<noteq> ([], Raise_HTTP 400 ''Invalid report_date format. Use YYYY-MM-DD.'')"
  by (simp add: generate_aged_receivables_report_def str_truthy_def strptime_ymd_def
      split_dash_def example_connection_def Let_def)

text \<open>
  C9, amended. A report date that is given, is not empty and that \<open>strptime\<close> rejects
  ends the request with the HTTP error 400 and with no event: the database is not read, no
  connection is started, no failure is recorded.
\<close>

theorem invalid_report_date_fails_fast:
  assumes "report_date = Some text" and "text \<noteq> []" and "strptime text = None"
  shows "generate_aged_receivables_report strptime utc_today today database source
           report_date periods period_of period_type show_current
         = ([], Raise_HTTP 400 ''Invalid report_date format. Use YYYY-MM-DD.'')"
  using assms by (simp add: generate_aged_receivables_report_def str_truthy_def)

theorem invalid_report_date_fails_fast_witness:
  "Some ''31/08/2025'' = Some ''31/08/2025'' \<and> ''31/08/2025'' \<noteq> []
   \<and> strptime_ymd ''31/08/2025'' = None
   \<and> strptime_ymd ''2025-08-31'' = Some (Date 2025 8 31)
   \<and> generate_aged_receivables_report strptime_ymd (Date 2025 9 1) (Date 2025 9 1)
        ([\<lparr>conn_id = 1, tenant_id = ''t-1'', tenant_name = ''Tenant'', app_id = 1,
           conn_business_type = ''Retail''\<rparr>], [])
        (\<lambda>c. Inl (Source_failed ''unreachable'')) (Some ''31/08/2025'') 4 1 ''Month'' True
      = ([], Raise_HTTP 400 ''Invalid report_date format. Use YYYY-MM-DD.'')"
proof -
  have n: "strptime_ymd ''31/08/2025'' = None"
    by (simp add: strptime_ymd_def split_dash_def)
  have p: "strptime_ymd ''2025-08-31'' = Some (Date 2025 8 31)"
    by (simp add: strptime_ymd_def split_dash_def digit_value_def date_eval)
  have t: "''31/08/2025'' \<noteq> []" by simp
  have r: "Some ''31/08/2025'' = Some ''31/08/2025''" by simp
  from invalid_report_date_fails_fast[of "Some ''31/08/2025''" "''31/08/2025''" strptime_ymd, OF r t n]
    n p show ?thesis by simp
qed


subsection \<open>The aggregator\<close>

































lemma float_steps_large:
  "to_float 9007199254740992 = 9007199254740992" "to_float 1 = 1"
  "float_add 0 9007199254740992 = 9007199254740992"
  "float_add 9007199254740992 1 = 9007199254740992"
  "float_add 9007199254740992 (- 9007199254740992) = 0"
  "float_add 0 1 = 1"
  by (simp_all add: float_eval)

lemma float_sum_large:
  "float_add (float_add (float_add 0 9007199254740992) 1) (- 9007199254740992) = 0"
  "float_add (float_add (float_add 0 9007199254740992) (- 9007199254740992)) 1 = 1"
  by (simp_all only: float_steps_large)










end
